theory Spec2Isabelle
  imports Main
begin

section \<open>diff\_util.js: status of a single repository\<close>

subsection \<open>Data model\<close>

text \<open>
  \<open>NodeGit.Diff.DELTA\<close>: the status tag of one delta of a diff, as libgit2 numbers them
  (UNMODIFIED = 0 up to CONFLICTED = 10).
\<close>

datatype DELTA =
    DELTA_UNMODIFIED
  | DELTA_ADDED
  | DELTA_DELETED
  | DELTA_MODIFIED
  | DELTA_RENAMED
  | DELTA_COPIED
  | DELTA_IGNORED
  | DELTA_UNTRACKED
  | DELTA_TYPECHANGE
  | DELTA_UNREADABLE
  | DELTA_CONFLICTED

text \<open>
  Modelled from the spec: \<open>RepoStatus.FILESTATUS\<close> lives in repo\_status.js, which is not
  among the sources; the tags are the ones the data model of the specification lists and
  \<open>convertDeltaFlag\<close> returns.
\<close>

datatype FILESTATUS =
    FILESTATUS_MODIFIED
  | FILESTATUS_ADDED
  | FILESTATUS_REMOVED
  | FILESTATUS_RENAMED
  | FILESTATUS_TYPECHANGED

text \<open>
  \<open>assert(false, ...)\<close> and \<open>throw new UserError(...)\<close> are the two ways the code
  leaves a function early. The assertion of \<open>convertDeltaFlag\<close> carries the flag it did not
  recognise (the source interpolates it into the message).
\<close>

datatype error =
    Unrecognized_DELTA DELTA
  | UserError string

text \<open>One side of a delta: \<open>file.path()\<close> and \<open>file.mode()\<close> (a number).\<close>

record diff_file =
  path :: string
  mode :: nat

record delta =
  status :: DELTA
  oldFile :: diff_file
  newFile :: diff_file

text \<open>A diff is its sequence of deltas: \<open>numDeltas\<close> is the length, \<open>getDelta(i)\<close> the
  \<open>i\<close>-th element.\<close>

type_synonym diff = "delta list"

text \<open>\<open>NodeGit.TreeEntry.FILEMODE\<close>: octal 160000 marks a submodule pointer, octal 100644
  an ordinary file.\<close>

definition FILEMODE_COMMIT :: nat where
  "FILEMODE_COMMIT = 57344"

definition FILEMODE_BLOB :: nat where
  "FILEMODE_BLOB = 33188"

text \<open>
  Modelled from the spec: \<open>SubmoduleConfigUtil.modulesFileName\<close> is declared in
  submodule\_config\_util.js, which is not among the sources; the specification calls it the
  \<open>.gitmodules\<close> path.
\<close>

definition modulesFileName :: string where
  "modulesFileName = ''.gitmodules''"

text \<open>The flags of \<open>NodeGit.Diff.OPTION\<close> that the code combines with bitwise or; each is a
  single bit, so a combination is the set of its flags.\<close>

datatype OPTION =
    INCLUDE_UNTRACKED
  | EXCLUDE_SUBMODULES
  | RECURSE_UNTRACKED_DIRS

record options =
  ignoreSubmodules :: nat
  flags :: "OPTION set"
  pathspec :: "string list option"

text \<open>The two mappings \<open>getRepoStatus\<close> returns.\<close>

type_synonym status_map = "string \<rightharpoonup> FILESTATUS"

record RepoStatus =
  staged :: status_map
  workdir :: status_map

text \<open>
  The diff primitives of the library and \<open>repo.index()\<close>, which \<open>getRepoStatus\<close> awaits.
  They are not code of this repository and are taken as parameters. (\<open>treeToIndex\<close> is
  always called with \<open>null\<close> for its index argument, which is left out.)
\<close>

record ('repo, 'tree, 'index) nodegit =
  treeToWorkdir :: "'repo \<Rightarrow> 'tree option \<Rightarrow> options \<Rightarrow> diff"
  indexToWorkdir :: "'repo \<Rightarrow> 'index \<Rightarrow> options \<Rightarrow> diff"
  treeToIndex :: "'repo \<Rightarrow> 'tree option \<Rightarrow> options \<Rightarrow> diff"
  repo_index :: "'repo \<Rightarrow> 'index"

subsection \<open>convertDeltaFlag and readDiff\<close>

fun convertDeltaFlag :: "DELTA \<Rightarrow> error + FILESTATUS" where
  "convertDeltaFlag DELTA_MODIFIED = Inr FILESTATUS_MODIFIED"
| "convertDeltaFlag DELTA_ADDED = Inr FILESTATUS_ADDED"
| "convertDeltaFlag DELTA_DELETED = Inr FILESTATUS_REMOVED"
| "convertDeltaFlag DELTA_RENAMED = Inr FILESTATUS_RENAMED"
| "convertDeltaFlag DELTA_TYPECHANGE = Inr FILESTATUS_TYPECHANGED"
| "convertDeltaFlag DELTA_UNTRACKED = Inr FILESTATUS_ADDED"
| "convertDeltaFlag flag = Inl (Unrecognized_DELTA flag)"

text \<open>
  \<open>result[path] = fileStatus\<close> on an object created by \<open>{}\<close>: the key \<open>__proto__\<close> is the
  accessor inherited from \<open>Object.prototype\<close>, whose setter ignores a value that is not an
  object, so the assignment creates no property; every other key becomes (or overwrites)
  an own property.
\<close>

definition js_set :: "status_map \<Rightarrow> string \<Rightarrow> FILESTATUS \<Rightarrow> status_map" where
  "js_set result k v = (if k = ''__proto__'' then result else result(k \<mapsto> v))"

text \<open>The file of a delta that \<open>readDiff\<close> looks at: the old one for a removal, the new
  one otherwise.\<close>

definition delta_file :: "FILESTATUS \<Rightarrow> delta \<Rightarrow> diff_file" where
  "delta_file fileStatus d =
     (if FILESTATUS_REMOVED = fileStatus then oldFile d else newFile d)"

text \<open>The loop of \<open>readDiff\<close> over the deltas from index \<open>i\<close> on, with \<open>result\<close> the
  object built so far.\<close>

fun readDiff_loop :: "diff \<Rightarrow> status_map \<Rightarrow> error + status_map" where
  "readDiff_loop [] result = Inr result"
| "readDiff_loop (d # rest) result =
     (let diffStatus = status d in
      if DELTA_CONFLICTED = diffStatus then readDiff_loop rest result
      else
        case convertDeltaFlag diffStatus of
          Inl e \<Rightarrow> Inl e
        | Inr fileStatus \<Rightarrow>
            let file = delta_file fileStatus d;
                p = path file
            in if modulesFileName \<noteq> p \<and> FILEMODE_COMMIT \<noteq> mode file
               then readDiff_loop rest (js_set result p fileStatus)
               else readDiff_loop rest result)"

definition readDiff :: "diff \<Rightarrow> error + status_map" where
  "readDiff d = readDiff_loop d Map.empty"

text \<open>
  The deltas the guard of \<open>readDiff\<close> keeps out of the result: those whose status converts
  and whose file, the one \<open>readDiff\<close> looks at, has the submodule-config path or is in
  COMMIT mode.
\<close>

definition isSubmoduleEntry :: "delta \<Rightarrow> bool" where
  "isSubmoduleEntry d =
     (case convertDeltaFlag (status d) of
        Inl e \<Rightarrow> False
      | Inr fileStatus \<Rightarrow>
          let file = delta_file fileStatus d
          in \<not> (modulesFileName \<noteq> path file \<and> FILEMODE_COMMIT \<noteq> mode file))"

subsection \<open>getRepoStatus\<close>

text \<open>The \<open>options\<close> object \<open>getRepoStatus\<close> builds before it asks for a diff.\<close>

definition statusOptions :: "string list \<Rightarrow> bool \<Rightarrow> options" where
  "statusOptions paths allUntracked =
     \<lparr> ignoreSubmodules = 1,
       flags = {INCLUDE_UNTRACKED, EXCLUDE_SUBMODULES} \<union>
               (if allUntracked then {RECURSE_UNTRACKED_DIRS} else {}),
       pathspec = (if 0 \<noteq> length paths then Some paths else None) \<rparr>"

definition getRepoStatus ::
  "('repo, 'tree, 'index) nodegit \<Rightarrow> 'repo \<Rightarrow> 'tree option \<Rightarrow> string list \<Rightarrow> bool \<Rightarrow> bool
     \<Rightarrow> error + RepoStatus" where
  "getRepoStatus git repo tree paths ignoreIndex allUntracked =
     (let opts = statusOptions paths allUntracked in
      if ignoreIndex then
        (case readDiff (treeToWorkdir git repo tree opts) of
           Inl e \<Rightarrow> Inl e
         | Inr workdirToTreeStatus \<Rightarrow>
             Inr \<lparr> staged = Map.empty, workdir = workdirToTreeStatus \<rparr>)
      else
        (let index = repo_index git repo in
         case readDiff (indexToWorkdir git repo index opts) of
           Inl e \<Rightarrow> Inl e
         | Inr workdirToIndexStatus \<Rightarrow>
             (case readDiff (treeToIndex git repo tree opts) of
                Inl e \<Rightarrow> Inl e
              | Inr indexToTreeStatus \<Rightarrow>
                  Inr \<lparr> staged = indexToTreeStatus, workdir = workdirToIndexStatus \<rparr>)))"

section \<open>diff\_util.js: diff targets and submodule diffs\<close>

subsection \<open>JavaScript array and string helpers\<close>

text \<open>\<open>Array.prototype.indexOf\<close>: the first index holding the element, \<open>-1\<close> when there is
  none.\<close>

fun indexOf_from :: "'a list \<Rightarrow> 'a \<Rightarrow> int \<Rightarrow> int" where
  "indexOf_from [] x i = - 1"
| "indexOf_from (y # ys) x i = (if y = x then i else indexOf_from ys x (i + 1))"

definition indexOf :: "'a list \<Rightarrow> 'a \<Rightarrow> int" where
  "indexOf xs x = indexOf_from xs x 0"

text \<open>\<open>Array.prototype.slice(start, end)\<close> for the non-negative bounds the code passes: empty
  when \<open>start\<close> is not below \<open>end\<close> or lies beyond the array.\<close>

definition slice :: "'a list \<Rightarrow> int \<Rightarrow> int \<Rightarrow> 'a list" where
  "slice xs start end = take (nat end - nat start) (drop (nat start) xs)"

text \<open>\<open>Array.prototype.join\<close>.\<close>

fun join :: "string \<Rightarrow> string list \<Rightarrow> string" where
  "join sep [] = []"
| "join sep [x] = x"
| "join sep (x # y # ys) = x @ sep @ join sep (y # ys)"

text \<open>\<open>String.prototype.startsWith\<close>.\<close>

definition startsWith :: "string \<Rightarrow> string \<Rightarrow> bool" where
  "startsWith s pre = (take (length pre) s = pre)"

subsection \<open>getOptions\<close>

text \<open>
  What \<open>opts.treeish1\<close> and \<open>opts.treeish2\<close> can hold. The object literal of \<open>getOptions\<close>
  writes the key \<open>treeish1\<close> twice and \<open>treeish2\<close> never, so an unset \<open>treeish1\<close> is
  \<open>null\<close> and an unset \<open>treeish2\<close> is \<open>undefined\<close>; both are handed to
  \<open>TreeUtil.revparseTreeish\<close> as they are.
\<close>

datatype treeish = JS_null | JS_undefined | JS_string string

record ('tree, 'dopts) opts =
  diffOpts :: 'dopts
  treeish1 :: treeish
  treeish2 :: treeish
  t1 :: "'tree option"
  t2 :: "'tree option"
  argOpts :: "string list"
  argPaths :: "string list"

text \<open>The parsed arguments of the \<open>diff\<close> command: \<open>args.commits\<close> is an array or absent.\<close>

record diff_args =
  commits :: "string list option"

text \<open>
  What \<open>getOptions\<close> takes from its surroundings: \<open>TreeUtil.revparseTreeish\<close> (tree\_util.js is
  not among the sources; it yields a tree, \<open>null\<close>, or throws) and a fresh
  \<open>NodeGit.DiffOptions\<close> object.
\<close>

record ('repo, 'tree, 'dopts) tree_env =
  revparseTreeish :: "'repo \<Rightarrow> treeish \<Rightarrow> error + 'tree option"
  newDiffOptions :: 'dopts

text \<open>The two slices \<open>getOptions\<close> cuts out of \<open>process.argv\<close>: the words between \<open>diff\<close> and
  \<open>--\<close>, and the words after \<open>--\<close>.\<close>

definition argv_i0 :: "string list \<Rightarrow> int" where
  "argv_i0 argv = (let i0 = indexOf argv ''diff'' in if i0 = - 1 then 0 else i0)"

definition argv_i1 :: "string list \<Rightarrow> int" where
  "argv_i1 argv = (let i1 = indexOf argv ''--'' in if i1 = - 1 then int (length argv) else i1)"

definition argv_argOpts :: "string list \<Rightarrow> string list" where
  "argv_argOpts argv = slice argv (argv_i0 argv + 1) (argv_i1 argv)"

definition argv_argPaths :: "string list \<Rightarrow> string list" where
  "argv_argPaths argv = slice argv (argv_i1 argv + 1) (int (length argv))"

text \<open>The names chosen for \<open>opts.treeish1\<close> and \<open>opts.treeish2\<close>.\<close>

definition chooseTreeish :: "string list \<Rightarrow> diff_args \<Rightarrow> treeish \<times> treeish" where
  "chooseTreeish aPaths args =
     (case commits args of
        None \<Rightarrow> (JS_null, JS_undefined)
      | Some [] \<Rightarrow> (JS_null, JS_undefined)
      | Some (name1 # others) \<Rightarrow>
          if name1 \<notin> set aPaths then
            (JS_string name1,
             (case others of
                [] \<Rightarrow> JS_undefined
              | name2 # _ \<Rightarrow> if name2 \<notin> set aPaths then JS_string name2 else JS_undefined))
          else (JS_null, JS_undefined))"

text \<open>\<open>getOptions(repo, args)\<close>; \<open>process.argv\<close>, which the function reads, is the argument
  \<open>argv\<close>.\<close>

definition getOptions ::
  "('repo, 'tree, 'dopts) tree_env \<Rightarrow> string list \<Rightarrow> 'repo \<Rightarrow> diff_args
     \<Rightarrow> error + ('tree, 'dopts) opts" where
  "getOptions env argv repo args =
     (let aOpts = argv_argOpts argv;
          aPaths = argv_argPaths argv;
          (tr1, tr2) = chooseTreeish aPaths args;
          aOpts' = filter (\<lambda>w. JS_string w \<noteq> tr1 \<and> JS_string w \<noteq> tr2) aOpts
      in case revparseTreeish env repo tr1 of
           Inl e \<Rightarrow> Inl e
         | Inr r1 \<Rightarrow>
             (case revparseTreeish env repo tr2 of
                Inl e \<Rightarrow> Inl e
              | Inr r2 \<Rightarrow>
                  Inr \<lparr> diffOpts = newDiffOptions env, treeish1 = tr1, treeish2 = tr2,
                        t1 = r1, t2 = r2, argOpts = aOpts', argPaths = aPaths \<rparr>))"

subsection \<open>getDiffWithOptions\<close>

text \<open>
  The call \<open>getDiffWithOptions\<close> makes to the diff primitives of the library, as a value:
  which primitive, and with which trees and options. The repository is the one passed
  in; the index argument of the last two is \<open>null\<close> in the source.
\<close>

datatype ('tree, 'dopts) diff_call =
    TreeToTree 'tree 'tree 'dopts
  | TreeToWorkdirWithIndex 'tree 'dopts
  | IndexToWorkdir 'dopts

definition diffCall :: "('tree, 'dopts) opts \<Rightarrow> ('tree, 'dopts) diff_call" where
  "diffCall opts =
     (case (t1 opts, t2 opts) of
        (Some a, Some b) \<Rightarrow> TreeToTree a b (diffOpts opts)
      | (Some a, None) \<Rightarrow> TreeToWorkdirWithIndex a (diffOpts opts)
      | (None, _) \<Rightarrow> IndexToWorkdir (diffOpts opts))"

definition getDiffWithOptions ::
  "('repo \<Rightarrow> ('tree, 'dopts) diff_call \<Rightarrow> diff) \<Rightarrow> 'repo \<Rightarrow> ('tree, 'dopts) opts \<Rightarrow> diff" where
  "getDiffWithOptions NodeGit_Diff repo opts = NodeGit_Diff repo (diffCall opts)"

subsection \<open>subDiffCmdBuilder and printDiff\<close>

text \<open>
  Modelled from the spec: \<open>MergeCommon.MODE\<close> is declared in merge\_common.js, which is not
  among the sources; these are the two modes the specification names and the merge-bare
  command chooses between.
\<close>

datatype MODE = NORMAL | FORCE_COMMIT

text \<open>What a command does to the outside, in order: lines written with \<open>console.log\<close>,
  shell commands handed to \<open>spawn\<close>, merges requested from \<open>MergeUtil.merge\<close> (our commit,
  their commit, mode), hooks run with \<open>Hook.execHook\<close> (name, arguments).\<close>

datatype effect =
    ConsoleLog string
  | Spawn string
  | Merge string string MODE
  | ExecHook string "string list"

text \<open>The function mapped over \<open>argPaths\<close>: \<open>None\<close> is the \<open>null\<close> that the following
  \<open>filter\<close> removes. \<open>relative\<close> is \<open>path.relative\<close> of the platform.\<close>

definition relativePath :: "(string \<Rightarrow> string \<Rightarrow> string) \<Rightarrow> string \<Rightarrow> string \<Rightarrow> string option" where
  "relativePath relative subPath p =
     (let rel = relative subPath p in
      if startsWith rel ''..'' then None
      else if rel = [] then Some ''.''
      else Some rel)"

definition subDiffCmdBuilder ::
  "(string \<Rightarrow> string \<Rightarrow> string) \<Rightarrow> string \<Rightarrow> string \<Rightarrow> ('tree, 'dopts) opts \<Rightarrow> string" where
  "subDiffCmdBuilder relative metaDir subDir opts =
     (let subPath = relative metaDir subDir;
          treeishStr = [] in
      if length (argPaths opts) > 0 then
        (let relativePaths = List.map_filter (relativePath relative subPath) (argPaths opts) in
         if length relativePaths = 0 then []
         else ''git -C '' @ subPath @ '' diff '' @ join '' '' (argOpts opts) @ '' '' @
              treeishStr @ '' -- '' @ join '' '' relativePaths)
      else ''git -C '' @ subPath @ '' diff '' @ join '' '' (argOpts opts) @ '' '' @ treeishStr)"

text \<open>\<open>printDiff\<close>, as the effects it has in order: one line on the console, then the
  command handed to a shell.\<close>

definition printDiff ::
  "(string \<Rightarrow> string \<Rightarrow> string) \<Rightarrow> string \<Rightarrow> string \<Rightarrow> ('tree, 'dopts) opts \<Rightarrow> effect list" where
  "printDiff relative metaDir subDir opts =
     (let execStr = subDiffCmdBuilder relative metaDir subDir opts in
      [ConsoleLog (''qqqq execStr = '' @ [CHR 0x27] @ execStr @ [CHR 0x27]), Spawn execStr])"

text \<open>
  \<open>path.relative\<close> of Node on POSIX paths, for evaluating the functions above on concrete
  paths: both paths are resolved against the working directory \<open>cwd\<close> (an absolute path),
  their common leading segments are dropped, and each segment left of \<open>from\<close> becomes
  \<open>..\<close>.
\<close>

fun split_slash :: "string \<Rightarrow> string \<Rightarrow> string list" where
  "split_slash [] seg = [rev seg]"
| "split_slash (c # cs) seg =
     (if c = CHR ''/'' then rev seg # split_slash cs [] else split_slash cs (c # seg))"

fun normalize_segments :: "string list \<Rightarrow> string list \<Rightarrow> string list" where
  "normalize_segments [] stack = rev stack"
| "normalize_segments (s # ss) stack =
     (if s = [] \<or> s = ''.'' then normalize_segments ss stack
      else if s = ''..'' then normalize_segments ss (tl stack)
      else normalize_segments ss (s # stack))"

definition path_resolve :: "string \<Rightarrow> string \<Rightarrow> string list" where
  "path_resolve cwd p =
     (if startsWith p ''/'' then normalize_segments (split_slash p []) []
      else normalize_segments (split_slash cwd [] @ split_slash p []) [])"

fun drop_common :: "string list \<Rightarrow> string list \<Rightarrow> string list \<times> string list" where
  "drop_common (x # xs) (y # ys) = (if x = y then drop_common xs ys else (x # xs, y # ys))"
| "drop_common xs ys = (xs, ys)"

definition path_relative :: "string \<Rightarrow> string \<Rightarrow> string \<Rightarrow> string" where
  "path_relative cwd from to =
     (let (f, t) = drop_common (path_resolve cwd from) (path_resolve cwd to)
      in join ''/'' (replicate (length f) ''..'' @ t))"

section \<open>merge\_bare.js\<close>

text \<open>
  Modelled from the spec: \<open>Open.SUB_OPEN_OPTION\<close> is declared in open.js, which is not among
  the sources; the options are the ones the specification of the opener lists.
\<close>

datatype SUB_OPEN_OPTION = FORCE_OPEN | FORCE_BARE | PREFER_CACHED

record merge_args =
  no_ff :: bool
  ourCommit :: "string option"
  theirCommit :: "string option"
  message :: string

text \<open>The result object of \<open>MergeUtil.merge\<close>, in the two fields the command reads; \<open>None\<close>
  is \<open>null\<close>.\<close>

record MergeResult =
  metaCommit :: "string option"
  errorMessage :: "string option"

text \<open>
  The collaborators of the command, for the repository it runs in:
  \<open>GitUtil.resolveCommitish\<close> (the id of the commit a name resolves to, or \<open>null\<close>),
  \<open>repo.getCommit\<close> (commits are identified by their id), \<open>MergeUtil.merge\<close> and
  \<open>colors.red\<close>.
\<close>

record merge_env =
  resolveCommitish :: "string \<Rightarrow> string option"
  getCommit :: "string \<Rightarrow> string"
  merge :: "string \<Rightarrow> string \<Rightarrow> MODE \<Rightarrow> SUB_OPEN_OPTION \<Rightarrow> string \<Rightarrow> MergeResult"
  red :: "string \<Rightarrow> string"

text \<open>\<open>executeableSubcommand\<close> of merge\_bare.js: the effects it had, in order, and how it
  ended (\<open>Inl\<close> the error thrown).\<close>

definition executeableSubcommand :: "merge_env \<Rightarrow> merge_args \<Rightarrow> effect list \<times> (error + unit)" where
  "executeableSubcommand env args =
     (let mode = (if no_ff args then FORCE_COMMIT else NORMAL) in
      case (ourCommit args, theirCommit args) of
        (Some ourCommitName, Some theirCommitName) \<Rightarrow>
          (case resolveCommitish env ourCommitName of
             None \<Rightarrow>
               ([], Inl (UserError (''Could not resolve '' @ red env ourCommitName @
                                    '' to a commit.'')))
           | Some ourCommitish \<Rightarrow>
               (case resolveCommitish env theirCommitName of
                  None \<Rightarrow>
                    ([], Inl (UserError (''Could not resolve '' @ red env theirCommitName @
                                         '' to a commit.'')))
                | Some theirCommitish \<Rightarrow>
                    (let ourC = getCommit env ourCommitish;
                         theirC = getCommit env theirCommitish;
                         result = merge env ourC theirC mode FORCE_BARE (message args)
                     in case errorMessage result of
                          Some msg \<Rightarrow> ([Merge ourC theirC mode], Inl (UserError msg))
                        | None \<Rightarrow>
                            ([Merge ourC theirC mode] @
                             (case metaCommit result of
                                Some c \<Rightarrow> [ConsoleLog c]
                              | None \<Rightarrow> []) @
                             [ExecHook ''post-merge'' [''0'']],
                             Inr ()))))
      | _ \<Rightarrow> ([], Inl (UserError ''Two commits must be given.'')))"

text \<open>How often a run invoked the post-merge hook.\<close>

definition hookCalls :: "effect list \<Rightarrow> nat" where
  "hookCalls effects = length (filter (\<lambda>e. e = ExecHook ''post-merge'' [''0'']) effects)"

section \<open>Example inputs\<close>

text \<open>A delta whose two sides have the same path and mode.\<close>

definition example_delta :: "DELTA \<Rightarrow> string \<Rightarrow> nat \<Rightarrow> delta" where
  "example_delta st p m =
     \<lparr> status = st, oldFile = \<lparr> path = p, mode = m \<rparr>, newFile = \<lparr> path = p, mode = m \<rparr> \<rparr>"

text \<open>
  Diff primitives for two repositories: repository \<open>0\<close> has an index and a working
  directory equal to the tree it is compared with; repository \<open>1\<close> has staged and unstaged
  changes, an untracked file, a conflicted file, a changed \<open>.gitmodules\<close> and a changed
  submodule pointer \<open>x\<close>.
\<close>

definition example_git :: "(nat, nat, nat) nodegit" where
  "example_git =
     \<lparr> treeToWorkdir = (\<lambda>repo tree opts.
         if repo = 0 then []
         else [example_delta DELTA_MODIFIED ''bar'' FILEMODE_BLOB,
               example_delta DELTA_UNTRACKED ''notes.txt'' FILEMODE_BLOB,
               example_delta DELTA_CONFLICTED ''baz'' FILEMODE_BLOB,
               example_delta DELTA_MODIFIED ''.gitmodules'' FILEMODE_BLOB,
               example_delta DELTA_MODIFIED ''x'' FILEMODE_COMMIT]),
       indexToWorkdir = (\<lambda>repo index opts.
         if repo = 0 then []
         else [example_delta DELTA_MODIFIED ''bar'' FILEMODE_BLOB,
               example_delta DELTA_UNTRACKED ''notes.txt'' FILEMODE_BLOB,
               example_delta DELTA_CONFLICTED ''baz'' FILEMODE_BLOB]),
       treeToIndex = (\<lambda>repo tree opts.
         if repo = 0 then []
         else [example_delta DELTA_ADDED ''new.c'' FILEMODE_BLOB,
               example_delta DELTA_DELETED ''old.c'' FILEMODE_BLOB,
               example_delta DELTA_MODIFIED ''.gitmodules'' FILEMODE_BLOB,
               example_delta DELTA_ADDED ''x'' FILEMODE_COMMIT]),
       repo_index = (\<lambda>repo. repo) \<rparr>"

text \<open>
  A submodule \<open>h\<close> replaced by an ordinary file, as one delta whose old side is the
  submodule pointer; and diff primitives for a repository where this is the unstaged
  change, while the staged change is a submodule \<open>x\<close> replaced by a file, reported as the
  removal of the pointer followed by the addition of the file.
\<close>

definition example_typechange :: delta where
  "example_typechange =
     \<lparr> status = DELTA_TYPECHANGE,
       oldFile = \<lparr> path = ''h'', mode = FILEMODE_COMMIT \<rparr>,
       newFile = \<lparr> path = ''h'', mode = FILEMODE_BLOB \<rparr> \<rparr>"

definition example_replaced_git :: "(nat, nat, nat) nodegit" where
  "example_replaced_git =
     \<lparr> treeToWorkdir = (\<lambda>repo tree opts. [example_typechange]),
       indexToWorkdir = (\<lambda>repo index opts. [example_typechange]),
       treeToIndex = (\<lambda>repo tree opts.
         [\<lparr> status = DELTA_DELETED,
            oldFile = \<lparr> path = ''x'', mode = FILEMODE_COMMIT \<rparr>,
            newFile = \<lparr> path = ''x'', mode = 0 \<rparr> \<rparr>,
          \<lparr> status = DELTA_ADDED,
            oldFile = \<lparr> path = ''x'', mode = 0 \<rparr>,
            newFile = \<lparr> path = ''x'', mode = FILEMODE_BLOB \<rparr> \<rparr>]),
       repo_index = (\<lambda>repo. repo) \<rparr>"

text \<open>A diff primitive that answers each kind of call with a different diff.\<close>

definition example_Diff :: "nat \<Rightarrow> (nat, unit) diff_call \<Rightarrow> diff" where
  "example_Diff repo call =
     (case call of
        TreeToTree a b _ \<Rightarrow> [example_delta DELTA_MODIFIED ''committed.c'' FILEMODE_BLOB]
      | TreeToWorkdirWithIndex a _ \<Rightarrow> [example_delta DELTA_MODIFIED ''edited.c'' FILEMODE_BLOB]
      | IndexToWorkdir _ \<Rightarrow> [example_delta DELTA_MODIFIED ''unstaged.c'' FILEMODE_BLOB])"

text \<open>A repository in which \<open>HEAD\<close> and \<open>HEAD~1\<close> name trees and nothing else does.\<close>

definition example_tree_env :: "(nat, nat, unit) tree_env" where
  "example_tree_env =
     \<lparr> revparseTreeish = (\<lambda>repo t. Inr (if t = JS_string ''HEAD'' then Some 1
                                        else if t = JS_string ''HEAD~1'' then Some 2
                                        else None)),
       newDiffOptions = () \<rparr>"

text \<open>A record of diff targets with the given trees and path filters.\<close>

definition example_opts :: "nat option \<Rightarrow> nat option \<Rightarrow> string list \<Rightarrow> (nat, unit) opts" where
  "example_opts a b ps =
     \<lparr> diffOpts = (), treeish1 = JS_null, treeish2 = JS_undefined, t1 = a, t2 = b,
       argOpts = [], argPaths = ps \<rparr>"

text \<open>
  A repository with the commits \<open>master\<close>, \<open>feature\<close> and \<open>clash\<close>: merging a commit with
  itself is up to date and yields neither a commit nor an error, merging \<open>clash\<close> reports
  a conflict, any other merge creates the commit \<open>ddd\<close>. \<open>red\<close> wraps its argument in
  the escape sequences of the terminal.
\<close>

definition example_merge_env :: merge_env where
  "example_merge_env =
     \<lparr> resolveCommitish = (\<lambda>name.
         if name = ''master'' then Some ''aaa''
         else if name = ''feature'' then Some ''bbb''
         else if name = ''clash'' then Some ''ccc''
         else None),
       getCommit = (\<lambda>id. id),
       merge = (\<lambda>ours theirs mode openOption msg.
         if ours = theirs then \<lparr> metaCommit = None, errorMessage = None \<rparr>
         else if theirs = ''ccc''
           then \<lparr> metaCommit = None, errorMessage = Some ''Conflict in submodule x'' \<rparr>
         else \<lparr> metaCommit = Some ''ddd'', errorMessage = None \<rparr>),
       red = (\<lambda>s. [CHR 0x1B] @ ''[31m'' @ s @ [CHR 0x1B] @ ''[39m'') \<rparr>"

section \<open>Auxiliary facts\<close>

subsection \<open>Unfolding the model on concrete inputs\<close>

lemmas ex_simps = example_git_def example_delta_def getRepoStatus_def readDiff_def
  statusOptions_def js_set_def delta_file_def modulesFileName_def FILEMODE_COMMIT_def
  FILEMODE_BLOB_def Let_def

lemmas opt_simps = getOptions_def argv_argOpts_def argv_argPaths_def argv_i0_def argv_i1_def
  indexOf_def slice_def chooseTreeish_def example_tree_env_def Let_def

lemmas merge_simps = executeableSubcommand_def hookCalls_def example_merge_env_def Let_def

subsection \<open>The loop of readDiff\<close>

lemma readDiff_loop_key_origin:
  "readDiff_loop ds r = Inr m \<Longrightarrow> p \<in> dom m \<Longrightarrow>
     p \<in> dom r \<or>
     (\<exists>d\<in>set ds. \<exists>fs. status d \<noteq> DELTA_CONFLICTED \<and> convertDeltaFlag (status d) = Inr fs \<and>
        path (delta_file fs d) = p \<and> p \<noteq> modulesFileName \<and>
        mode (delta_file fs d) \<noteq> FILEMODE_COMMIT)"
proof (induction ds arbitrary: r)
  case Nil
  then show ?case by auto
next
  case (Cons d ds)
  show ?case
  proof (cases "status d = DELTA_CONFLICTED")
    case True
    with Cons.prems have "readDiff_loop ds r = Inr m" by simp
    from Cons.IH [OF this Cons.prems(2)] show ?thesis by auto
  next
    case nc: False
    show ?thesis
    proof (cases "convertDeltaFlag (status d)")
      case (Inl e)
      with nc Cons.prems show ?thesis by (simp add: Let_def)
    next
      case (Inr fs)
      let ?f = "delta_file fs d"
      show ?thesis
      proof (cases "modulesFileName \<noteq> path ?f \<and> FILEMODE_COMMIT \<noteq> mode ?f")
        case True
        with nc Inr Cons.prems have "readDiff_loop ds (js_set r (path ?f) fs) = Inr m"
          by (simp add: Let_def)
        from Cons.IH [OF this Cons.prems(2)]
        show ?thesis
        proof
          assume "p \<in> dom (js_set r (path ?f) fs)"
          then have "p \<in> dom r \<or> p = path ?f"
            by (auto simp: js_set_def split: if_splits)
          with nc Inr True show ?thesis by auto
        next
          assume "\<exists>d\<in>set ds. \<exists>fs. status d \<noteq> DELTA_CONFLICTED \<and> convertDeltaFlag (status d) = Inr fs \<and>
        path (delta_file fs d) = p \<and> p \<noteq> modulesFileName \<and>
        mode (delta_file fs d) \<noteq> FILEMODE_COMMIT"
          then show ?thesis by auto
        qed
      next
        case False
        with nc Inr Cons.prems have "readDiff_loop ds r = Inr m"
          by (auto simp add: Let_def)
        from Cons.IH [OF this Cons.prems(2)] show ?thesis by auto
      qed
    qed
  qed
qed

lemma readDiff_key_origin:
  "readDiff ds = Inr m \<Longrightarrow> p \<in> dom m \<Longrightarrow>
     \<exists>d\<in>set ds. \<exists>fs. status d \<noteq> DELTA_CONFLICTED \<and> convertDeltaFlag (status d) = Inr fs \<and>
        path (delta_file fs d) = p \<and> p \<noteq> modulesFileName \<and>
        mode (delta_file fs d) \<noteq> FILEMODE_COMMIT"
  using readDiff_loop_key_origin [of ds Map.empty m p] by (simp add: readDiff_def)

lemma readDiff_loop_skip_conflicted:
  "readDiff_loop (filter (\<lambda>d. status d \<noteq> DELTA_CONFLICTED) ds) r = readDiff_loop ds r"
  by (induction ds arbitrary: r) (auto simp: Let_def split: sum.splits)

lemma readDiff_loop_skip_entries:
  "readDiff_loop (filter (\<lambda>d. \<not> isSubmoduleEntry d) ds) r = readDiff_loop ds r"
proof (induction ds arbitrary: r)
  case Nil
  show ?case by simp
next
  case (Cons d ds)
  show ?case
  proof (cases "isSubmoduleEntry d")
    case True
    then obtain fs where fs: "convertDeltaFlag (status d) = Inr fs"
      and skip: "\<not> (modulesFileName \<noteq> path (delta_file fs d) \<and>
                     FILEMODE_COMMIT \<noteq> mode (delta_file fs d))"
      by (auto simp: isSubmoduleEntry_def Let_def split: sum.splits)
    from fs skip have "readDiff_loop (d # ds) r = readDiff_loop ds r"
      by (auto simp: Let_def)
    with True Cons.IH show ?thesis by simp
  next
    case False
    then have "readDiff_loop (filter (\<lambda>d. \<not> isSubmoduleEntry d) (d # ds)) r
                 = readDiff_loop (d # filter (\<lambda>d. \<not> isSubmoduleEntry d) ds) r"
      by simp
    also have "\<dots> = readDiff_loop (d # ds) r"
      by (simp add: Let_def Cons.IH split: sum.splits)
    finally show ?thesis .
  qed
qed

lemma readDiff_loop_append:
  "readDiff_loop (xs @ ys) r =
     (case readDiff_loop xs r of Inl e \<Rightarrow> Inl e | Inr r' \<Rightarrow> readDiff_loop ys r')"
  by (induction xs arbitrary: r) (auto simp: Let_def split: sum.splits)

lemma readDiff_loop_untouched:
  "readDiff_loop ds r = Inr m \<Longrightarrow>
   \<forall>e\<in>set ds. path (oldFile e) \<noteq> p \<and> path (newFile e) \<noteq> p \<Longrightarrow> m p = r p"
proof (induction ds arbitrary: r)
  case Nil
  then show ?case by simp
next
  case (Cons d ds)
  from Cons.prems(2) have here: "path (oldFile d) \<noteq> p" "path (newFile d) \<noteq> p"
    and later: "\<forall>e\<in>set ds. path (oldFile e) \<noteq> p \<and> path (newFile e) \<noteq> p"
    by simp_all
  from Cons.prems(1) consider
      "readDiff_loop ds r = Inr m"
    | fs where "readDiff_loop ds (js_set r (path (delta_file fs d)) fs) = Inr m"
    by (auto simp: Let_def split: if_splits sum.splits)
  then show ?case
  proof cases
    case 1
    from Cons.IH [OF this later] show ?thesis .
  next
    case 2
    from Cons.IH [OF this later]
    have "m p = js_set r (path (delta_file fs d)) fs p" .
    also have "\<dots> = r p"
      using here by (simp add: js_set_def delta_file_def)
    finally show ?thesis .
  qed
qed

lemma getRepoStatus_Inr:
  assumes "getRepoStatus git repo tree paths ignoreIndex allUntracked = Inr st"
  shows "readDiff (if ignoreIndex
                   then treeToWorkdir git repo tree (statusOptions paths allUntracked)
                   else indexToWorkdir git repo (repo_index git repo)
                          (statusOptions paths allUntracked)) = Inr (workdir st)"
    and "readDiff (if ignoreIndex then []
                   else treeToIndex git repo tree (statusOptions paths allUntracked))
           = Inr (staged st)"
  using assms
  by (auto simp: getRepoStatus_def readDiff_def Let_def split: if_splits sum.splits)

subsection \<open>process.argv and the path filters\<close>

lemma indexOf_from_takeWhile:
  "indexOf_from xs x i =
     (if x \<in> set xs then i + int (length (takeWhile (\<lambda>y. y \<noteq> x) xs)) else - 1)"
  by (induction xs arbitrary: i) auto

lemma argv_argPaths_after_separator:
  "argv_argPaths argv = tl (dropWhile (\<lambda>w. w \<noteq> ''--'') argv)"
proof (cases "''--'' \<in> set argv")
  case True
  let ?n = "length (takeWhile (\<lambda>w. w \<noteq> ''--'') argv)"
  from True have "argv_i1 argv = int ?n"
    by (simp add: argv_i1_def indexOf_def indexOf_from_takeWhile)
  then have "argv_argPaths argv = drop (Suc ?n) argv"
    by (simp add: argv_argPaths_def slice_def nat_add_distrib)
  also have "\<dots> = tl (drop ?n argv)"
    by (simp add: drop_Suc tl_drop)
  also have "drop ?n argv = dropWhile (\<lambda>w. w \<noteq> ''--'') argv"
    by (simp add: dropWhile_eq_drop)
  finally show ?thesis .
next
  case False
  then have "argv_i1 argv = int (length argv)"
    by (simp add: argv_i1_def indexOf_def indexOf_from_takeWhile)
  then have none: "argv_argPaths argv = []"
    by (simp add: argv_argPaths_def slice_def)
  from False have rest: "dropWhile (\<lambda>w. w \<noteq> ''--'') argv = []"
    by auto
  show ?thesis by (simp only: none rest list.sel)
qed

lemma chooseTreeish_not_path:
  "chooseTreeish aPaths args = (tr1, tr2) \<Longrightarrow>
     (tr1 = JS_string c \<longrightarrow> c \<notin> set aPaths) \<and> (tr2 = JS_string c \<longrightarrow> c \<notin> set aPaths)"
  by (auto simp: chooseTreeish_def split: option.splits list.splits if_splits)

lemma map_filter_all_None:
  "\<forall>x\<in>set xs. f x = None \<Longrightarrow> List.map_filter f xs = []"
  by (induction xs) (simp_all add: List.map_filter_simps)

subsection \<open>The examples, evaluated\<close>

lemma example_status_index:
  "getRepoStatus example_git 1 (Some 0) [] False False =
     Inr \<lparr> staged = [''new.c'' \<mapsto> FILESTATUS_ADDED, ''old.c'' \<mapsto> FILESTATUS_REMOVED],
           workdir = [''bar'' \<mapsto> FILESTATUS_MODIFIED, ''notes.txt'' \<mapsto> FILESTATUS_ADDED] \<rparr>"
  by (simp add: ex_simps)

lemma example_relative:
  "path_relative ''/demo/meta'' ''/demo/meta/'' ''/demo/meta/x/'' = ''x''"
  "path_relative ''/demo/meta'' ''x'' ''y/bar'' = ''../y/bar''"
  by (simp_all add: path_relative_def path_resolve_def startsWith_def)

section \<open>The claims\<close>

subsection \<open>merge-bare\<close>

text \<open>
  C1, as the code has it: the post-merge hook is invoked exactly once when and only when the
  run ends without an error, that is when both names are given and resolve and
  \<open>MergeUtil.merge\<close> returns no error message, whether or not the result carries a commit;
  on every error path it is not invoked at all.
\<close>

theorem post_merge_hook_iff_no_error:
  "hookCalls (fst (executeableSubcommand env args))
     = (if snd (executeableSubcommand env args) = Inr () then 1 else 0) \<and>
   (snd (executeableSubcommand env args) = Inr () \<longleftrightarrow>
     (\<exists>a b oa ob.
        ourCommit args = Some a \<and> theirCommit args = Some b \<and>
        resolveCommitish env a = Some oa \<and> resolveCommitish env b = Some ob \<and>
        errorMessage (merge env (getCommit env oa) (getCommit env ob)
                        (if no_ff args then FORCE_COMMIT else NORMAL) FORCE_BARE
                        (message args)) = None))"
  by (auto simp: executeableSubcommand_def hookCalls_def Let_def split: option.splits)

theorem post_merge_hook_iff_no_error_witness:
  "hookCalls (fst (executeableSubcommand example_merge_env
      \<lparr> no_ff = False, ourCommit = Some ''master'', theirCommit = Some ''feature'',
        message = ''merge feature'' \<rparr>)) = 1 \<and>
   hookCalls (fst (executeableSubcommand example_merge_env
      \<lparr> no_ff = True, ourCommit = Some ''master'', theirCommit = Some ''clash'',
        message = ''merge clash'' \<rparr>)) = 0"
  using post_merge_hook_iff_no_error [of example_merge_env
      "\<lparr> no_ff = False, ourCommit = Some ''master'', theirCommit = Some ''feature'',
        message = ''merge feature'' \<rparr>"]
    post_merge_hook_iff_no_error [of example_merge_env
      "\<lparr> no_ff = True, ourCommit = Some ''master'', theirCommit = Some ''clash'',
        message = ''merge clash'' \<rparr>"]
  by (simp add: example_merge_env_def)

text \<open>
  C1 as stated fails: merging \<open>master\<close> with itself produces no commit (\<open>metaCommit\<close> is
  \<open>null\<close>) and no error, nothing is printed, and the hook runs all the same.
\<close>

theorem post_merge_hook_without_commit_counterexample:
  "metaCommit (merge example_merge_env ''aaa'' ''aaa'' NORMAL FORCE_BARE ''merge'') = None \<and>
   executeableSubcommand example_merge_env
      \<lparr> no_ff = False, ourCommit = Some ''master'', theirCommit = Some ''master'',
        message = ''merge'' \<rparr>
     = ([Merge ''aaa'' ''aaa'' NORMAL, ExecHook ''post-merge'' [''0'']], Inr ()) \<and>
   hookCalls (fst (executeableSubcommand example_merge_env
      \<lparr> no_ff = False, ourCommit = Some ''master'', theirCommit = Some ''master'',
        message = ''merge'' \<rparr>)) = 1"
  by (simp add: merge_simps)

text \<open>
  C6: when both names are given and \<open>ourCommit\<close> does not resolve, or \<open>ourCommit\<close> resolves
  and \<open>theirCommit\<close> does not, the command ends with the user error
  \<open>Could not resolve <name> to a commit.\<close>, the name being the offending argument as
  \<open>colors.red\<close> renders it, and has done nothing before: no merge, no output, no hook.
\<close>

theorem unresolved_commit_is_user_error:
  assumes "ourCommit args = Some a" and "theirCommit args = Some b"
  shows "(resolveCommitish env a = None \<longrightarrow>
            executeableSubcommand env args =
              ([], Inl (UserError (''Could not resolve '' @ red env a @ '' to a commit.'')))) \<and>
         (resolveCommitish env a \<noteq> None \<and> resolveCommitish env b = None \<longrightarrow>
            executeableSubcommand env args =
              ([], Inl (UserError (''Could not resolve '' @ red env b @ '' to a commit.''))))"
  using assms by (auto simp: executeableSubcommand_def Let_def split: option.splits)

theorem unresolved_commit_is_user_error_witness:
  "executeableSubcommand example_merge_env
      \<lparr> no_ff = False, ourCommit = Some ''nosuch'', theirCommit = Some ''feature'',
        message = ''m'' \<rparr>
     = ([], Inl (UserError (''Could not resolve '' @ [CHR 0x1B] @ ''[31mnosuch'' @ [CHR 0x1B] @
                            ''[39m to a commit.''))) \<and>
   executeableSubcommand example_merge_env
      \<lparr> no_ff = False, ourCommit = Some ''master'', theirCommit = Some ''missing'',
        message = ''m'' \<rparr>
     = ([], Inl (UserError (''Could not resolve '' @ [CHR 0x1B] @ ''[31mmissing'' @ [CHR 0x1B] @
                            ''[39m to a commit.'')))"
  using unresolved_commit_is_user_error [of
      "\<lparr> no_ff = False, ourCommit = Some ''nosuch'', theirCommit = Some ''feature'',
        message = ''m'' \<rparr>" "''nosuch''" "''feature''" example_merge_env]
    unresolved_commit_is_user_error [of
      "\<lparr> no_ff = False, ourCommit = Some ''master'', theirCommit = Some ''missing'',
        message = ''m'' \<rparr>" "''master''" "''missing''" example_merge_env]
  by (simp add: example_merge_env_def)

subsection \<open>printDiff\<close>

text \<open>
  C2, where the code departs from it: when there are path filters and every one of them
  lies outside the submodule (its path relative to the submodule starts with \<open>..\<close>), the
  command built is empty, and \<open>printDiff\<close> still writes a line to the console and hands
  the empty command to \<open>spawn\<close>; the submodule is not skipped without output.
\<close>

theorem printDiff_all_filters_outside:
  assumes "argPaths opts \<noteq> []"
    and "\<forall>p\<in>set (argPaths opts). startsWith (relative (relative metaDir subDir) p) ''..''"
  shows "subDiffCmdBuilder relative metaDir subDir opts = [] \<and>
         printDiff relative metaDir subDir opts =
           [ConsoleLog (''qqqq execStr = '' @ [CHR 0x27, CHR 0x27]), Spawn []]"
proof -
  from assms(2)
  have "\<forall>p\<in>set (argPaths opts). relativePath relative (relative metaDir subDir) p = None"
    by (simp add: relativePath_def)
  then have "List.map_filter (relativePath relative (relative metaDir subDir)) (argPaths opts)
               = []"
    by (rule map_filter_all_None)
  with assms(1) have "subDiffCmdBuilder relative metaDir subDir opts = []"
    by (simp add: subDiffCmdBuilder_def)
  then show ?thesis by (simp add: printDiff_def)
qed

theorem printDiff_all_filters_outside_witness:
  "argPaths (example_opts None None [''y/bar'']) \<noteq> [] \<and>
   startsWith (path_relative ''/demo/meta''
                 (path_relative ''/demo/meta'' ''/demo/meta/'' ''/demo/meta/x/'') ''y/bar'') ''..'' \<and>
   printDiff (path_relative ''/demo/meta'') ''/demo/meta/'' ''/demo/meta/x/''
       (example_opts None None [''y/bar''])
     = [ConsoleLog (''qqqq execStr = '' @ [CHR 0x27, CHR 0x27]), Spawn []]"
  using printDiff_all_filters_outside
    [of "example_opts None None [''y/bar'']" "path_relative ''/demo/meta''"
        "''/demo/meta/''" "''/demo/meta/x/''"]
  by (simp add: example_opts_def example_relative startsWith_def)

subsection \<open>getRepoStatus\<close>

text \<open>
  C3: with \<open>ignoreIndex\<close> true, \<open>getRepoStatus\<close> returns exactly the results whose \<open>staged\<close>
  mapping is empty and whose \<open>workdir\<close> mapping is read from the comparison of the working
  directory with the reference tree; with \<open>ignoreIndex\<close> false, exactly the results whose
  \<open>workdir\<close> mapping is read from the comparison of the working directory with the index
  and whose \<open>staged\<close> mapping is read from the comparison of the index with the reference
  tree.
\<close>

theorem getRepoStatus_ignoreIndex:
  "(getRepoStatus git repo tree paths True allUntracked = Inr st \<longleftrightarrow>
      staged st = Map.empty \<and>
      readDiff (treeToWorkdir git repo tree (statusOptions paths allUntracked))
        = Inr (workdir st)) \<and>
   (getRepoStatus git repo tree paths False allUntracked = Inr st \<longleftrightarrow>
      readDiff (indexToWorkdir git repo (repo_index git repo)
                 (statusOptions paths allUntracked)) = Inr (workdir st) \<and>
      readDiff (treeToIndex git repo tree (statusOptions paths allUntracked))
        = Inr (staged st))"
  by (cases st) (auto simp: getRepoStatus_def Let_def split: sum.splits)

theorem getRepoStatus_ignoreIndex_witness:
  "getRepoStatus example_git 1 (Some 0) [] True False =
     Inr \<lparr> staged = Map.empty,
           workdir = [''bar'' \<mapsto> FILESTATUS_MODIFIED, ''notes.txt'' \<mapsto> FILESTATUS_ADDED] \<rparr> \<and>
   getRepoStatus example_git 1 (Some 0) [] False False =
     Inr \<lparr> staged = [''new.c'' \<mapsto> FILESTATUS_ADDED, ''old.c'' \<mapsto> FILESTATUS_REMOVED],
           workdir = [''bar'' \<mapsto> FILESTATUS_MODIFIED, ''notes.txt'' \<mapsto> FILESTATUS_ADDED] \<rparr>"
proof -
  have a: "readDiff (treeToWorkdir example_git 1 (Some 0) (statusOptions [] False))
             = Inr [''bar'' \<mapsto> FILESTATUS_MODIFIED, ''notes.txt'' \<mapsto> FILESTATUS_ADDED]"
    by (simp add: ex_simps)
  have b: "readDiff (indexToWorkdir example_git 1 (repo_index example_git 1)
                       (statusOptions [] False))
             = Inr [''bar'' \<mapsto> FILESTATUS_MODIFIED, ''notes.txt'' \<mapsto> FILESTATUS_ADDED]"
    by (simp add: ex_simps)
  have c: "readDiff (treeToIndex example_git 1 (Some 0) (statusOptions [] False))
             = Inr [''new.c'' \<mapsto> FILESTATUS_ADDED, ''old.c'' \<mapsto> FILESTATUS_REMOVED]"
    by (simp add: ex_simps)
  show ?thesis
    using a b c
      getRepoStatus_ignoreIndex [of example_git 1 "Some 0" "[]" False
        "\<lparr> staged = Map.empty,
           workdir = [''bar'' \<mapsto> FILESTATUS_MODIFIED, ''notes.txt'' \<mapsto> FILESTATUS_ADDED] \<rparr>"]
      getRepoStatus_ignoreIndex [of example_git 1 "Some 0" "[]" False
        "\<lparr> staged = [''new.c'' \<mapsto> FILESTATUS_ADDED, ''old.c'' \<mapsto> FILESTATUS_REMOVED],
           workdir = [''bar'' \<mapsto> FILESTATUS_MODIFIED, ''notes.txt'' \<mapsto> FILESTATUS_ADDED] \<rparr>"]
    by simp
qed

text \<open>
  C4, as the code has it: \<open>readDiff\<close> skips every delta whose status converts to a file
  status and whose file, the one it looks at (the old file of a removal, the new file of
  any other delta), has the submodule-config path or is in COMMIT mode, so a diff and the
  diff without those deltas are read alike;
  in a result of \<open>getRepoStatus\<close> the submodule-config path is a key of neither mapping,
  and every key of a mapping is the path of a delta, of the diff the mapping was read
  from, whose file is not in COMMIT mode.
\<close>

theorem getRepoStatus_skips_submodule_entries:
  "readDiff diff = readDiff (filter (\<lambda>d. \<not> isSubmoduleEntry d) diff) \<and>
   (getRepoStatus git repo tree paths ignoreIndex allUntracked = Inr st \<longrightarrow>
     modulesFileName \<notin> dom (staged st) \<and> modulesFileName \<notin> dom (workdir st) \<and>
     (\<forall>p\<in>dom (workdir st).
        \<exists>d\<in>set (if ignoreIndex
                  then treeToWorkdir git repo tree (statusOptions paths allUntracked)
                  else indexToWorkdir git repo (repo_index git repo)
                         (statusOptions paths allUntracked)).
        \<exists>fs. convertDeltaFlag (status d) = Inr fs \<and> path (delta_file fs d) = p \<and>
             mode (delta_file fs d) \<noteq> FILEMODE_COMMIT) \<and>
     (\<forall>p\<in>dom (staged st).
        \<not> ignoreIndex \<and>
        (\<exists>d\<in>set (treeToIndex git repo tree (statusOptions paths allUntracked)).
         \<exists>fs. convertDeltaFlag (status d) = Inr fs \<and> path (delta_file fs d) = p \<and>
              mode (delta_file fs d) \<noteq> FILEMODE_COMMIT)))"
proof (intro conjI impI)
  show "readDiff diff = readDiff (filter (\<lambda>d. \<not> isSubmoduleEntry d) diff)"
    by (simp add: readDiff_def readDiff_loop_skip_entries)
next
  assume ok: "getRepoStatus git repo tree paths ignoreIndex allUntracked = Inr st"
  note w = getRepoStatus_Inr(1) [OF ok] and s = getRepoStatus_Inr(2) [OF ok]
  show "modulesFileName \<notin> dom (staged st)"
    using readDiff_key_origin [OF s] by blast
  show "modulesFileName \<notin> dom (workdir st)"
    using readDiff_key_origin [OF w] by blast
  show "\<forall>p\<in>dom (workdir st).
        \<exists>d\<in>set (if ignoreIndex
                  then treeToWorkdir git repo tree (statusOptions paths allUntracked)
                  else indexToWorkdir git repo (repo_index git repo)
                         (statusOptions paths allUntracked)).
        \<exists>fs. convertDeltaFlag (status d) = Inr fs \<and> path (delta_file fs d) = p \<and>
             mode (delta_file fs d) \<noteq> FILEMODE_COMMIT"
  proof
    fix p assume "p \<in> dom (workdir st)"
    from readDiff_key_origin [OF w this]
    show "\<exists>d\<in>set (if ignoreIndex
                  then treeToWorkdir git repo tree (statusOptions paths allUntracked)
                  else indexToWorkdir git repo (repo_index git repo)
                         (statusOptions paths allUntracked)).
        \<exists>fs. convertDeltaFlag (status d) = Inr fs \<and> path (delta_file fs d) = p \<and>
             mode (delta_file fs d) \<noteq> FILEMODE_COMMIT"
      by blast
  qed
  show "\<forall>p\<in>dom (staged st).
        \<not> ignoreIndex \<and>
        (\<exists>d\<in>set (treeToIndex git repo tree (statusOptions paths allUntracked)).
         \<exists>fs. convertDeltaFlag (status d) = Inr fs \<and> path (delta_file fs d) = p \<and>
              mode (delta_file fs d) \<noteq> FILEMODE_COMMIT)"
  proof
    fix p assume p: "p \<in> dom (staged st)"
    show "\<not> ignoreIndex \<and>
        (\<exists>d\<in>set (treeToIndex git repo tree (statusOptions paths allUntracked)).
         \<exists>fs. convertDeltaFlag (status d) = Inr fs \<and> path (delta_file fs d) = p \<and>
              mode (delta_file fs d) \<noteq> FILEMODE_COMMIT)"
    proof (cases ignoreIndex)
      case True
      with readDiff_key_origin [OF s p] show ?thesis by simp
    next
      case False
      with readDiff_key_origin [OF s p] show ?thesis by auto
    qed
  qed
qed

theorem getRepoStatus_skips_submodule_entries_witness:
  "readDiff (treeToIndex example_git 1 (Some 0) (statusOptions [] False))
     = readDiff [example_delta DELTA_ADDED ''new.c'' FILEMODE_BLOB,
                 example_delta DELTA_DELETED ''old.c'' FILEMODE_BLOB] \<and>
   getRepoStatus example_git 1 (Some 0) [] False False =
     Inr \<lparr> staged = [''new.c'' \<mapsto> FILESTATUS_ADDED, ''old.c'' \<mapsto> FILESTATUS_REMOVED],
           workdir = [''bar'' \<mapsto> FILESTATUS_MODIFIED, ''notes.txt'' \<mapsto> FILESTATUS_ADDED] \<rparr> \<and>
   modulesFileName \<notin> dom [''new.c'' \<mapsto> FILESTATUS_ADDED, ''old.c'' \<mapsto> FILESTATUS_REMOVED] \<and>
   modulesFileName \<notin> dom [''bar'' \<mapsto> FILESTATUS_MODIFIED, ''notes.txt'' \<mapsto> FILESTATUS_ADDED]"
  using example_status_index
    getRepoStatus_skips_submodule_entries
      [of "treeToIndex example_git 1 (Some 0) (statusOptions [] False)"
          example_git 1 "Some 0" "[]" False False
          "\<lparr> staged = [''new.c'' \<mapsto> FILESTATUS_ADDED, ''old.c'' \<mapsto> FILESTATUS_REMOVED],
             workdir = [''bar'' \<mapsto> FILESTATUS_MODIFIED,
                        ''notes.txt'' \<mapsto> FILESTATUS_ADDED] \<rparr>"]
  by (simp add: example_git_def example_delta_def isSubmoduleEntry_def delta_file_def
      modulesFileName_def FILEMODE_COMMIT_def FILEMODE_BLOB_def)

text \<open>
  C4 as stated fails: the path of a delta that has a submodule pointer on one side can be
  a key. A submodule replaced by a file is a TYPECHANGE delta with COMMIT mode on its old
  side, or a removal in COMMIT mode followed by an addition; \<open>readDiff\<close> looks at the new
  file and reports the path.
\<close>

theorem submodule_pointer_path_counterexample:
  "status example_typechange = DELTA_TYPECHANGE \<and>
   mode (oldFile example_typechange) = FILEMODE_COMMIT \<and>
   getRepoStatus example_replaced_git 0 (Some 0) [] False False =
     Inr \<lparr> staged = [''x'' \<mapsto> FILESTATUS_ADDED],
           workdir = [''h'' \<mapsto> FILESTATUS_TYPECHANGED] \<rparr> \<and>
   ''h'' \<in> dom [''h'' \<mapsto> FILESTATUS_TYPECHANGED] \<and>
   ''x'' \<in> dom [''x'' \<mapsto> FILESTATUS_ADDED]"
  by (simp add: example_replaced_git_def example_typechange_def getRepoStatus_def readDiff_def
      statusOptions_def js_set_def delta_file_def modulesFileName_def FILEMODE_COMMIT_def
      FILEMODE_BLOB_def Let_def)

text \<open>
  C7: \<open>readDiff\<close> skips every CONFLICTED delta, so a diff and the diff without its
  conflicted deltas are read alike; and whatever \<open>ignoreIndex\<close> and \<open>allUntracked\<close> are,
  every key of the \<open>workdir\<close> and of the \<open>staged\<close> mapping of a result is a path of a delta
  that is not conflicted, in the diff the mapping was read from.
\<close>

theorem readDiff_skips_conflicted:
  "readDiff diff = readDiff (filter (\<lambda>d. status d \<noteq> DELTA_CONFLICTED) diff) \<and>
   (getRepoStatus git repo tree paths ignoreIndex allUntracked = Inr st \<longrightarrow>
     (\<forall>p\<in>dom (workdir st).
        \<exists>d\<in>set (if ignoreIndex
                  then treeToWorkdir git repo tree (statusOptions paths allUntracked)
                  else indexToWorkdir git repo (repo_index git repo)
                         (statusOptions paths allUntracked)).
          status d \<noteq> DELTA_CONFLICTED \<and> (p = path (oldFile d) \<or> p = path (newFile d))) \<and>
     (\<forall>p\<in>dom (staged st).
        \<not> ignoreIndex \<and>
        (\<exists>d\<in>set (treeToIndex git repo tree (statusOptions paths allUntracked)).
          status d \<noteq> DELTA_CONFLICTED \<and> (p = path (oldFile d) \<or> p = path (newFile d)))))"
proof (intro conjI impI ballI)
  show "readDiff diff = readDiff (filter (\<lambda>d. status d \<noteq> DELTA_CONFLICTED) diff)"
    by (simp add: readDiff_def readDiff_loop_skip_conflicted)
next
  fix p
  assume ok: "getRepoStatus git repo tree paths ignoreIndex allUntracked = Inr st"
    and p: "p \<in> dom (workdir st)"
  from readDiff_key_origin [OF getRepoStatus_Inr(1) [OF ok] p]
  show "\<exists>d\<in>set (if ignoreIndex
                  then treeToWorkdir git repo tree (statusOptions paths allUntracked)
                  else indexToWorkdir git repo (repo_index git repo)
                         (statusOptions paths allUntracked)).
          status d \<noteq> DELTA_CONFLICTED \<and> (p = path (oldFile d) \<or> p = path (newFile d))"
    by (auto simp: delta_file_def split: if_splits)
next
  fix p
  assume ok: "getRepoStatus git repo tree paths ignoreIndex allUntracked = Inr st"
    and p: "p \<in> dom (staged st)"
  from readDiff_key_origin [OF getRepoStatus_Inr(2) [OF ok] p]
  have *: "\<exists>d\<in>set (if ignoreIndex then []
                   else treeToIndex git repo tree (statusOptions paths allUntracked)).
          status d \<noteq> DELTA_CONFLICTED \<and> (p = path (oldFile d) \<or> p = path (newFile d))"
    by (auto simp: delta_file_def split: if_splits)
  then show "\<not> ignoreIndex" by (cases ignoreIndex) auto
  from * show "\<exists>d\<in>set (treeToIndex git repo tree (statusOptions paths allUntracked)).
          status d \<noteq> DELTA_CONFLICTED \<and> (p = path (oldFile d) \<or> p = path (newFile d))"
    by (cases ignoreIndex) auto
qed

theorem readDiff_skips_conflicted_witness:
  "readDiff (indexToWorkdir example_git 1 1 (statusOptions [] False))
     = readDiff [example_delta DELTA_MODIFIED ''bar'' FILEMODE_BLOB,
                 example_delta DELTA_UNTRACKED ''notes.txt'' FILEMODE_BLOB] \<and>
   getRepoStatus example_git 1 (Some 0) [] False False =
     Inr \<lparr> staged = [''new.c'' \<mapsto> FILESTATUS_ADDED, ''old.c'' \<mapsto> FILESTATUS_REMOVED],
           workdir = [''bar'' \<mapsto> FILESTATUS_MODIFIED, ''notes.txt'' \<mapsto> FILESTATUS_ADDED] \<rparr> \<and>
   ''baz'' \<notin> dom [''bar'' \<mapsto> FILESTATUS_MODIFIED, ''notes.txt'' \<mapsto> FILESTATUS_ADDED]"
  using example_status_index
    readDiff_skips_conflicted
      [of "indexToWorkdir example_git 1 1 (statusOptions [] False)"
          example_git 1 "Some 0" "[]" False False
          "\<lparr> staged = [''new.c'' \<mapsto> FILESTATUS_ADDED, ''old.c'' \<mapsto> FILESTATUS_REMOVED],
             workdir = [''bar'' \<mapsto> FILESTATUS_MODIFIED,
                        ''notes.txt'' \<mapsto> FILESTATUS_ADDED] \<rparr>"]
  by (simp add: example_git_def example_delta_def)

text \<open>
  C8: for a tree \<open>T\<close>, no paths, \<open>ignoreIndex\<close> false and \<open>allUntracked\<close> false, when the
  working directory matches the index and the index matches \<open>T\<close> (the two comparisons
  report no delta), the result has an empty \<open>staged\<close> and an empty \<open>workdir\<close> mapping.
\<close>

theorem getRepoStatus_clean:
  assumes "indexToWorkdir git repo (repo_index git repo) (statusOptions [] False) = []"
    and "treeToIndex git repo (Some T) (statusOptions [] False) = []"
  shows "getRepoStatus git repo (Some T) [] False False
           = Inr \<lparr> staged = Map.empty, workdir = Map.empty \<rparr>"
  using assms by (simp add: getRepoStatus_def readDiff_def Let_def)

theorem getRepoStatus_clean_witness:
  "indexToWorkdir example_git 0 (repo_index example_git 0) (statusOptions [] False) = [] \<and>
   treeToIndex example_git 0 (Some 0) (statusOptions [] False) = [] \<and>
   getRepoStatus example_git 0 (Some 0) [] False False
     = Inr \<lparr> staged = Map.empty, workdir = Map.empty \<rparr>"
proof -
  have a: "indexToWorkdir example_git 0 (repo_index example_git 0) (statusOptions [] False) = []"
    by (simp add: example_git_def)
  have b: "treeToIndex example_git 0 (Some (0::nat)) (statusOptions [] False) = []"
    by (simp add: example_git_def)
  from getRepoStatus_clean [OF a b] a b show ?thesis by simp
qed

text \<open>
  C10, as the code has it: \<open>convertDeltaFlag\<close> maps UNTRACKED to ADDED, and an UNTRACKED
  delta is reported under the path of its new file with status ADDED when that path is
  neither the submodule-config path nor \<open>__proto__\<close>, the file is not in COMMIT mode, and
  no later delta of the diff has the same path. Nothing is said here about a file named
  \<open>__proto__\<close>.
\<close>

theorem untracked_reported_as_added:
  assumes "status d = DELTA_UNTRACKED"
    and "path (newFile d) \<noteq> modulesFileName"
    and "mode (newFile d) \<noteq> FILEMODE_COMMIT"
    and "path (newFile d) \<noteq> ''__proto__''"
    and "\<forall>e\<in>set post. path (oldFile e) \<noteq> path (newFile d) \<and>
                       path (newFile e) \<noteq> path (newFile d)"
    and "readDiff (pre @ d # post) = Inr m"
  shows "convertDeltaFlag (status d) = Inr FILESTATUS_ADDED \<and>
         m (path (newFile d)) = Some FILESTATUS_ADDED"
proof -
  let ?p = "path (newFile d)"
  from assms(6) obtain r where pre: "readDiff_loop pre Map.empty = Inr r"
    and rest: "readDiff_loop (d # post) r = Inr m"
    by (auto simp: readDiff_def readDiff_loop_append split: sum.splits)
  from rest assms(1-3) have "readDiff_loop post (js_set r ?p FILESTATUS_ADDED) = Inr m"
    by (simp add: Let_def delta_file_def)
  from readDiff_loop_untouched [OF this assms(5)]
  have "m ?p = js_set r ?p FILESTATUS_ADDED ?p" .
  with assms(4) have "m ?p = Some FILESTATUS_ADDED"
    by (simp add: js_set_def)
  with assms(1) show ?thesis by simp
qed

theorem untracked_reported_as_added_witness:
  "readDiff ([example_delta DELTA_MODIFIED ''bar'' FILEMODE_BLOB] @
             example_delta DELTA_UNTRACKED ''notes.txt'' FILEMODE_BLOB #
             [example_delta DELTA_CONFLICTED ''baz'' FILEMODE_BLOB])
     = Inr [''bar'' \<mapsto> FILESTATUS_MODIFIED, ''notes.txt'' \<mapsto> FILESTATUS_ADDED] \<and>
   [''bar'' \<mapsto> FILESTATUS_MODIFIED, ''notes.txt'' \<mapsto> FILESTATUS_ADDED] ''notes.txt''
     = Some FILESTATUS_ADDED"
proof -
  have run: "readDiff ([example_delta DELTA_MODIFIED ''bar'' FILEMODE_BLOB] @
             example_delta DELTA_UNTRACKED ''notes.txt'' FILEMODE_BLOB #
             [example_delta DELTA_CONFLICTED ''baz'' FILEMODE_BLOB])
     = Inr [''bar'' \<mapsto> FILESTATUS_MODIFIED, ''notes.txt'' \<mapsto> FILESTATUS_ADDED]"
    by (simp add: ex_simps)
  have "[''bar'' \<mapsto> FILESTATUS_MODIFIED, ''notes.txt'' \<mapsto> FILESTATUS_ADDED]
          (path (newFile (example_delta DELTA_UNTRACKED ''notes.txt'' FILEMODE_BLOB)))
        = Some FILESTATUS_ADDED"
    using untracked_reported_as_added
      [of "example_delta DELTA_UNTRACKED ''notes.txt'' FILEMODE_BLOB"
          "[example_delta DELTA_CONFLICTED ''baz'' FILEMODE_BLOB]"
          "[example_delta DELTA_MODIFIED ''bar'' FILEMODE_BLOB]", OF _ _ _ _ _ run]
    by (simp add: example_delta_def modulesFileName_def FILEMODE_COMMIT_def FILEMODE_BLOB_def)
  with run show ?thesis by (simp add: example_delta_def)
qed

text \<open>
  C10 as stated fails: an untracked \<open>.gitmodules\<close> file is a delta with status UNTRACKED,
  and it is not reported at all.
\<close>

theorem untracked_gitmodules_counterexample:
  "status (example_delta DELTA_UNTRACKED ''.gitmodules'' FILEMODE_BLOB) = DELTA_UNTRACKED \<and>
   readDiff [example_delta DELTA_UNTRACKED ''.gitmodules'' FILEMODE_BLOB] = Inr Map.empty"
  by (simp add: ex_simps)

subsection \<open>Diff targets\<close>

text \<open>
  C5, as the code has it: if neither tree target resolved, the diff compares the index
  against the working directory; if the first target resolved and the second did not, it
  compares the first tree against the working directory together with the index; if both
  resolved, it compares the two trees and nothing else.
\<close>

theorem getDiffWithOptions_cases:
  "(t1 opts = None \<and> t2 opts = None \<longrightarrow>
      getDiffWithOptions NodeGit_Diff repo opts
        = NodeGit_Diff repo (IndexToWorkdir (diffOpts opts))) \<and>
   (\<forall>a. t1 opts = Some a \<and> t2 opts = None \<longrightarrow>
      getDiffWithOptions NodeGit_Diff repo opts
        = NodeGit_Diff repo (TreeToWorkdirWithIndex a (diffOpts opts))) \<and>
   (\<forall>a b. t1 opts = Some a \<and> t2 opts = Some b \<longrightarrow>
      getDiffWithOptions NodeGit_Diff repo opts
        = NodeGit_Diff repo (TreeToTree a b (diffOpts opts)))"
  by (auto simp: getDiffWithOptions_def diffCall_def split: option.splits)

theorem getDiffWithOptions_cases_witness:
  "getDiffWithOptions example_Diff 0 (example_opts None None [])
     = example_Diff 0 (IndexToWorkdir ()) \<and>
   getDiffWithOptions example_Diff 0 (example_opts (Some 1) None [])
     = example_Diff 0 (TreeToWorkdirWithIndex 1 ()) \<and>
   getDiffWithOptions example_Diff 0 (example_opts (Some 1) (Some 2) [])
     = example_Diff 0 (TreeToTree 1 2 ())"
  using getDiffWithOptions_cases [of "example_opts None None []" example_Diff 0]
    getDiffWithOptions_cases [of "example_opts (Some 1) None []" example_Diff 0]
    getDiffWithOptions_cases [of "example_opts (Some 1) (Some 2) []" example_Diff 0]
  by (simp add: example_opts_def)

text \<open>
  C5 as stated fails: when only the second target resolved, exactly one tree resolved, and
  the diff is the one of the index against the working directory, not the one of that
  tree: the function looks at the second target only after the first.
\<close>

theorem getDiffWithOptions_second_only_counterexample:
  "t1 (example_opts None (Some 1) []) = None \<and>
   t2 (example_opts None (Some 1) []) = Some 1 \<and>
   getDiffWithOptions example_Diff 0 (example_opts None (Some 1) [])
     = example_Diff 0 (IndexToWorkdir ()) \<and>
   getDiffWithOptions example_Diff 0 (example_opts None (Some 1) [])
     \<noteq> example_Diff 0 (TreeToWorkdirWithIndex 1 ())"
  by (simp add: getDiffWithOptions_def diffCall_def example_opts_def example_Diff_def
      example_delta_def)

text \<open>
  C9, as the code has it: the record depends on the explicit arguments, the repository
  and the ambient \<open>process.argv\<close>, and on the latter only through the words between
  \<open>diff\<close> and \<open>--\<close> and the words after \<open>--\<close>: two runs that agree on these give the same
  result. The path filters of the record are the words of \<open>process.argv\<close> after its first
  \<open>--\<close>, and a name is a tree-ish target only if it is not one of them.
\<close>

theorem getOptions_reads_argv:
  "(argv_argOpts argv = argv_argOpts argv' \<and> argv_argPaths argv = argv_argPaths argv' \<longrightarrow>
      getOptions env argv repo args = getOptions env argv' repo args) \<and>
   argv_argPaths argv = tl (dropWhile (\<lambda>w. w \<noteq> ''--'') argv) \<and>
   (getOptions env argv repo args = Inr opts \<longrightarrow>
      argPaths opts = argv_argPaths argv \<and>
      (\<forall>c. treeish1 opts = JS_string c \<or> treeish2 opts = JS_string c \<longrightarrow>
           c \<notin> set (argv_argPaths argv)))"
proof (intro conjI impI)
  assume "argv_argOpts argv = argv_argOpts argv' \<and> argv_argPaths argv = argv_argPaths argv'"
  then show "getOptions env argv repo args = getOptions env argv' repo args"
    by (simp add: getOptions_def)
next
  show "argv_argPaths argv = tl (dropWhile (\<lambda>w. w \<noteq> ''--'') argv)"
    by (rule argv_argPaths_after_separator)
next
  assume ok: "getOptions env argv repo args = Inr opts"
  obtain tr1 tr2 where ch: "chooseTreeish (argv_argPaths argv) args = (tr1, tr2)"
    by (cases "chooseTreeish (argv_argPaths argv) args")
  from ok ch have fields: "argPaths opts = argv_argPaths argv" "treeish1 opts = tr1"
    "treeish2 opts = tr2"
    by (auto simp: getOptions_def Let_def split: sum.splits)
  show "argPaths opts = argv_argPaths argv" by (rule fields(1))
  show "\<forall>c. treeish1 opts = JS_string c \<or> treeish2 opts = JS_string c \<longrightarrow>
           c \<notin> set (argv_argPaths argv)"
    using chooseTreeish_not_path [OF ch] fields by blast
qed

theorem getOptions_reads_argv_witness:
  "argv_argOpts [''node'', ''git-meta'', ''diff'', ''HEAD'', ''--'', ''x/foo'']
     = argv_argOpts [''git-meta'', ''diff'', ''HEAD'', ''--'', ''x/foo''] \<and>
   argv_argPaths [''node'', ''git-meta'', ''diff'', ''HEAD'', ''--'', ''x/foo'']
     = argv_argPaths [''git-meta'', ''diff'', ''HEAD'', ''--'', ''x/foo''] \<and>
   getOptions example_tree_env [''git-meta'', ''diff'', ''HEAD'', ''--'', ''x/foo''] 0
       \<lparr> commits = Some [''HEAD''] \<rparr>
     = getOptions example_tree_env [''node'', ''git-meta'', ''diff'', ''HEAD'', ''--'', ''x/foo''] 0
         \<lparr> commits = Some [''HEAD''] \<rparr> \<and>
   getOptions example_tree_env [''node'', ''git-meta'', ''diff'', ''HEAD'', ''--'', ''x/foo''] 0
       \<lparr> commits = Some [''HEAD''] \<rparr>
     = Inr \<lparr> diffOpts = (), treeish1 = JS_string ''HEAD'', treeish2 = JS_undefined,
             t1 = Some 1, t2 = None, argOpts = [], argPaths = [''x/foo''] \<rparr> \<and>
   argv_argPaths [''node'', ''git-meta'', ''diff'', ''HEAD'', ''--'', ''x/foo''] = [''x/foo''] \<and>
   ''HEAD'' \<notin> set (argv_argPaths [''node'', ''git-meta'', ''diff'', ''HEAD'', ''--'', ''x/foo''])"
proof -
  let ?argv = "[''node'', ''git-meta'', ''diff'', ''HEAD'', ''--'', ''x/foo'']"
  let ?argv' = "[''git-meta'', ''diff'', ''HEAD'', ''--'', ''x/foo'']"
  let ?opts = "\<lparr> diffOpts = (), treeish1 = JS_string ''HEAD'', treeish2 = JS_undefined,
                  t1 = Some (1::nat), t2 = None, argOpts = [], argPaths = [''x/foo''] \<rparr>"
  have same: "argv_argOpts ?argv = argv_argOpts ?argv' \<and>
              argv_argPaths ?argv = argv_argPaths ?argv'"
    by (simp add: argv_argOpts_def argv_argPaths_def argv_i0_def argv_i1_def indexOf_def
        slice_def)
  have run: "getOptions example_tree_env ?argv 0 \<lparr> commits = Some [''HEAD''] \<rparr> = Inr ?opts"
    by (simp add: opt_simps)
  note all = getOptions_reads_argv
    [of ?argv ?argv' example_tree_env 0 "\<lparr> commits = Some [''HEAD''] \<rparr>" ?opts]
  from all same
  have eq: "getOptions example_tree_env ?argv 0 \<lparr> commits = Some [''HEAD''] \<rparr>
              = getOptions example_tree_env ?argv' 0 \<lparr> commits = Some [''HEAD''] \<rparr>"
    by blast
  from all run
  have paths: "argPaths ?opts = argv_argPaths ?argv"
    and head: "''HEAD'' \<notin> set (argv_argPaths ?argv)"
    by simp_all
  from paths have "argv_argPaths ?argv = [''x/foo'']" by simp
  with same eq run head show ?thesis by simp
qed

text \<open>
  C9 as stated fails: the same explicit arguments in the same repository give two
  different records when \<open>process.argv\<close> differs.
\<close>

theorem getOptions_ambient_counterexample:
  "getOptions example_tree_env [''node'', ''git-meta'', ''diff'', ''HEAD''] 0
      \<lparr> commits = Some [''HEAD''] \<rparr>
   \<noteq> getOptions example_tree_env [''node'', ''git-meta'', ''diff'', ''--'', ''HEAD''] 0
      \<lparr> commits = Some [''HEAD''] \<rparr>"
  by (simp add: opt_simps)

end
